theory Spec2Isabelle
  imports Complex_Main
begin

section \<open>Data model of \<^verbatim>\<open>MOD_3_Q1.py\<close>\<close>

text \<open>
  The Python exceptions that the simulation core can raise. \<^verbatim>\<open>EmptySchedule\<close> is the
  exception of \<^verbatim>\<open>simpy.Environment.step\<close> on an empty event queue.
\<close>

datatype error =
    ZeroDivisionError
  | KeyError
  | ValueError
  | IndexError
  | RuntimeError
  | EmptySchedule

text \<open>
  \<^verbatim>\<open>class Road\<close>: \<^verbatim>\<open>name\<close>, \<^verbatim>\<open>capacity\<close>, \<^verbatim>\<open>current_load\<close>, \<^verbatim>\<open>history\<close>. The
  \<^verbatim>\<open>coordinates\<close> are never read by the simulation and are left out. Loads and capacities are
  Python integers. The entries of \<^verbatim>\<open>history\<close> are the quotients
  \<^verbatim>\<open>current_load / capacity\<close>; they are kept as exact rationals (Python rounds each quotient
  to the nearest double, which is exact for the small quotients of the scenarios below and
  monotone in general).
\<close>

record road =
  name :: string
  capacity :: int
  current_load :: int
  history :: "rat list"

text \<open>
  \<^verbatim>\<open>class Vehicle\<close>: \<^verbatim>\<open>id\<close>, \<^verbatim>\<open>weight\<close>, \<^verbatim>\<open>priority\<close>. The fields \<^verbatim>\<open>x\<close>, \<^verbatim>\<open>y\<close>,
  \<^verbatim>\<open>color\<close> and \<^verbatim>\<open>speed\<close> are read by the drawing code only.
\<close>

record vehicle =
  vid :: int
  weight :: int
  priority :: int

type_synonym assignments = "int \<rightharpoonup> string"

section \<open>The two assignment policies\<close>

text \<open>The key \<^verbatim>\<open>r.current_load / r.capacity\<close> of both policies; Python raises on a zero capacity.\<close>

definition load_ratio :: "road \<Rightarrow> error + rat" where
  "load_ratio r =
     (if capacity r = 0 then Inl ZeroDivisionError
      else Inr (of_int (current_load r) / of_int (capacity r)))"

text \<open>The keys of all roads, in iteration order; the first failing key aborts.\<close>

fun load_ratios :: "road list \<Rightarrow> error + rat list" where
  "load_ratios [] = Inr []"
| "load_ratios (r # rs) =
     (case load_ratio r of
        Inl e \<Rightarrow> Inl e
      | Inr q \<Rightarrow> (case load_ratios rs of Inl e \<Rightarrow> Inl e | Inr qs \<Rightarrow> Inr (q # qs)))"

text \<open>
  Python's \<^verbatim>\<open>min(xs, key=...)\<close>: one pass that keeps the current best and replaces it only by a
  strictly smaller key, so the first minimal element wins; an empty argument is a
  \<^verbatim>\<open>ValueError\<close>. The result is the position of the chosen road.
\<close>

fun min_from :: "rat \<Rightarrow> nat \<Rightarrow> nat \<Rightarrow> rat list \<Rightarrow> nat" where
  "min_from best bi i [] = bi"
| "min_from best bi i (q # qs) =
     (if q < best then min_from q i (Suc i) qs else min_from best bi (Suc i) qs)"

definition py_min :: "rat list \<Rightarrow> error + nat" where
  "py_min qs = (case qs of [] \<Rightarrow> Inl ValueError | q # qs' \<Rightarrow> Inr (min_from q 0 1 qs'))"

text \<open>\<^verbatim>\<open>road.current_load += weight\<close> on the road object at position \<open>i\<close>.\<close>

definition add_load :: "road list \<Rightarrow> nat \<Rightarrow> int \<Rightarrow> road list" where
  "add_load rs i w = rs[i := (rs ! i)\<lparr>current_load := current_load (rs ! i) + w\<rparr>]"

text \<open>
  \<^verbatim>\<open>optimize_traffic_flow\<close> (lines 70-76). The road objects are mutated in place, so the
  model returns the road list together with the outcome: the assignments, or the exception
  that left the loop.
\<close>

fun optimize_loop :: "road list \<Rightarrow> assignments \<Rightarrow> vehicle list \<Rightarrow> road list \<times> (error + assignments)" where
  "optimize_loop rs asg [] = (rs, Inr asg)"
| "optimize_loop rs asg (v # vs) =
     (case load_ratios rs of
        Inl e \<Rightarrow> (rs, Inl e)
      | Inr qs \<Rightarrow>
          (case py_min qs of
             Inl e \<Rightarrow> (rs, Inl e)
           | Inr i \<Rightarrow>
               optimize_loop (add_load rs i (weight v))
                 (asg(vid v \<mapsto> name (rs ! i))) vs))"

definition optimize_traffic_flow :: "road list \<Rightarrow> vehicle list \<Rightarrow> road list \<times> (error + assignments)" where
  "optimize_traffic_flow rs vs = optimize_loop rs Map.empty vs"

text \<open>
  \<^verbatim>\<open>balance_traffic_flow\<close> (lines 79-88). \<^verbatim>\<open>sorted\<close> is stable and computes every key
  before the loop starts; the sorted list holds the same road objects, here their positions.
\<close>

fun first_fit :: "road list \<Rightarrow> int \<Rightarrow> nat list \<Rightarrow> nat option" where
  "first_fit rs w [] = None"
| "first_fit rs w (i # is) =
     (if current_load (rs ! i) + w \<le> capacity (rs ! i) then Some i
      else first_fit rs w is)"

fun balance_loop :: "nat list \<Rightarrow> road list \<Rightarrow> assignments \<Rightarrow> vehicle list \<Rightarrow> road list \<times> assignments" where
  "balance_loop roads_sorted rs asg [] = (rs, asg)"
| "balance_loop roads_sorted rs asg (v # vs) =
     (case first_fit rs (weight v) roads_sorted of
        None \<Rightarrow> balance_loop roads_sorted rs asg vs
      | Some i \<Rightarrow>
          balance_loop roads_sorted (add_load rs i (weight v))
            (asg(vid v \<mapsto> name (rs ! i))) vs)"

definition balance_traffic_flow :: "road list \<Rightarrow> vehicle list \<Rightarrow> road list \<times> (error + assignments)" where
  "balance_traffic_flow rs vs =
     (case load_ratios rs of
        Inl e \<Rightarrow> (rs, Inl e)
      | Inr qs \<Rightarrow>
          (case balance_loop (sort_key (\<lambda>i. qs ! i) [0..<length rs]) rs Map.empty vs of
             (rs', asg) \<Rightarrow> (rs', Inr asg)))"

section \<open>The process of one vehicle\<close>

text \<open>
  \<^verbatim>\<open>next(road for road in self.roads if road.name == road_name)\<close>: the first road of that
  name. An exhausted \<^verbatim>\<open>next\<close> inside a generator surfaces as a \<^verbatim>\<open>RuntimeError\<close>.
\<close>

fun find_road :: "road list \<Rightarrow> string \<Rightarrow> nat option" where
  "find_road [] n = None"
| "find_road (r # rs) n = (if name r = n then Some 0 else map_option Suc (find_road rs n))"

text \<open>
  \<^verbatim>\<open>vehicle_process\<close> up to its \<^verbatim>\<open>yield\<close> (lines 106-113): the policy is called on the
  one-element batch, the assigned road is looked up by name, and the weight is added to its
  load. The result is the position of \<^verbatim>\<open>assigned_road\<close>, or the exception raised.
\<close>

definition vehicle_process_start :: "string \<Rightarrow> road list \<Rightarrow> vehicle \<Rightarrow> road list \<times> (error + nat)" where
  "vehicle_process_start m rs v =
     (case (if m = ''1'' then optimize_traffic_flow rs [v]
            else balance_traffic_flow rs [v]) of
        (rs', Inl e) \<Rightarrow> (rs', Inl e)
      | (rs', Inr asg) \<Rightarrow>
          (case asg (vid v) of
             None \<Rightarrow> (rs', Inl KeyError)
           | Some road_name \<Rightarrow>
               (case find_road rs' road_name of
                  None \<Rightarrow> (rs', Inl RuntimeError)
                | Some i \<Rightarrow> (add_load rs' i (weight v), Inr i))))"

text \<open>Line 115, the release: \<^verbatim>\<open>current_load = max(0, current_load - weight)\<close>.\<close>

definition release :: "road \<Rightarrow> int \<Rightarrow> road" where
  "release r w = r\<lparr>current_load := max 0 (current_load r - w)\<rparr>"

text \<open>
  \<^verbatim>\<open>vehicle_process\<close> after its \<^verbatim>\<open>yield\<close> (lines 115-116): the release, then the quotient is
  appended to the history. The division is evaluated before the append.
\<close>

definition vehicle_process_finish :: "road list \<Rightarrow> vehicle \<Rightarrow> nat \<Rightarrow> road list \<times> error option" where
  "vehicle_process_finish rs v i =
     (let r = release (rs ! i) (weight v) in
      case load_ratio r of
        Inl e \<Rightarrow> (rs[i := r], Some e)
      | Inr q \<Rightarrow> (rs[i := r\<lparr>history := history r @ [q]\<rparr>], None))"

section \<open>The event queue of the simulation environment\<close>

text \<open>
  The simulation runs on \<^verbatim>\<open>simpy.Environment\<close>. A process is a Python generator; the
  environment keeps a heap of entries \<^verbatim>\<open>(time, priority, eid, event)\<close>, and
  \<^verbatim>\<open>step\<close> pops the least entry, sets the clock to its time and runs the callbacks of the
  event, which resume the process waiting for it. Only two generators exist here, so an
  event is identified with what its callback resumes:
  \<^item> the \<^verbatim>\<open>Initialize\<close> event of the process of \<^verbatim>\<open>generate_random_traffic\<close>;
  \<^item> the \<^verbatim>\<open>Initialize\<close> event of a \<^verbatim>\<open>vehicle_process\<close>;
  \<^item> the \<^verbatim>\<open>Timeout\<close> on which the generator waits in the iteration of the given hour;
  \<^item> the \<^verbatim>\<open>Timeout\<close> on which a vehicle process waits, with its locals \<^verbatim>\<open>vehicle\<close>
    and \<^verbatim>\<open>assigned_road\<close> (the position of the road object);
  \<^item> the \<^verbatim>\<open>Process\<close> event itself, scheduled when the generator returns (\<open>None\<close>) or
    raises (\<open>Some e\<close>); nothing waits for it.
\<close>

datatype event =
    InitializeGenerator
  | InitializeVehicle vehicle
  | GeneratorTimeout int
  | VehicleTimeout vehicle nat
  | ProcessEnded "error option"

type_synonym entry = "int \<times> nat \<times> nat \<times> event"

record environment =
  now :: int
  queue :: "entry list"
  eid :: nat

definition URGENT :: nat where
  "URGENT = 0"

definition NORMAL :: nat where
  "NORMAL = 1"

text \<open>\<^verbatim>\<open>Environment.schedule\<close>: push \<^verbatim>\<open>(now + delay, priority, next(eid), event)\<close>.\<close>

definition schedule :: "event \<Rightarrow> nat \<Rightarrow> int \<Rightarrow> environment \<Rightarrow> environment" where
  "schedule ev prio delay e =
     e\<lparr>queue := queue e @ [(now e + delay, prio, eid e, ev)], eid := Suc (eid e)\<rparr>"

text \<open>The order of the heap: tuples compare by time, then priority, then \<^verbatim>\<open>eid\<close>.\<close>

fun earlier :: "entry \<Rightarrow> entry \<Rightarrow> bool" where
  "earlier (t, p, i, _) (t', p', i', _) \<longleftrightarrow>
     t < t' \<or> (t = t' \<and> (p < p' \<or> (p = p' \<and> i < i')))"

fun heap_min :: "entry \<Rightarrow> entry list \<Rightarrow> entry" where
  "heap_min m [] = m"
| "heap_min m (x # xs) = heap_min (if earlier x m then x else m) xs"

text \<open>\<^verbatim>\<open>heappop\<close>: the least entry and the remaining queue; \<open>None\<close> on an empty queue.\<close>

definition heappop :: "entry list \<Rightarrow> (entry \<times> entry list) option" where
  "heappop q =
     (case q of
        [] \<Rightarrow> None
      | x # xs \<Rightarrow> (let m = heap_min x xs in Some (m, remove1 m q)))"

text \<open>\<^verbatim>\<open>Environment.peek\<close>: the time of the next event; \<open>None\<close> stands for infinity.\<close>

definition peek :: "environment \<Rightarrow> int option" where
  "peek e = (case queue e of [] \<Rightarrow> None | x # xs \<Rightarrow> Some (fst (heap_min x xs)))"

section \<open>The simulator\<close>

text \<open>
  \<^verbatim>\<open>class TrafficSimulator\<close> with the fields of its constructor (\<open>selected_method\<close> is
  the field \<^verbatim>\<open>method\<close>). Four fields are added:
  \<^item> \<open>random_tape\<close> and \<open>random_pos\<close> stand for the global generator of \<^verbatim>\<open>numpy.random\<close>:
    the tape is the sequence of raw draws, the position counts the draws made so far;
  \<^item> \<open>assigned_log\<close> and \<open>completed_log\<close> are observation logs that the source does not
    have: the position of the road is appended to the first when a vehicle process has
    passed line 113 (it is assigned and holds the road), and to the second when a vehicle
    process has passed line 116 (hold and release are complete). No operation reads them.
\<close>

record traffic_simulator =
  env :: environment
  roads :: "road list"
  time_window :: int
  vehicles :: "vehicle list"
  selected_method :: string
  peak_hours :: "rat \<times> rat"
  vehicle_rate :: int
  random_tape :: "nat \<Rightarrow> nat"
  random_pos :: nat
  assigned_log :: "nat list"
  completed_log :: "nat list"

text \<open>\<^verbatim>\<open>Road.__init__\<close>: a road starts with load 0 and an empty history.\<close>

definition Road :: "string \<Rightarrow> int \<Rightarrow> road" where
  "Road n c = \<lparr>name = n, capacity = c, current_load = 0, history = []\<rparr>"

text \<open>
  \<^verbatim>\<open>simpy.Environment()\<close> followed by \<^verbatim>\<open>TrafficSimulator.__init__\<close>: the clock is 0, the
  queue is empty and no vehicle exists.
\<close>

definition TrafficSimulator ::
  "road list \<Rightarrow> int \<Rightarrow> string \<Rightarrow> rat \<times> rat \<Rightarrow> int \<Rightarrow> (nat \<Rightarrow> nat) \<Rightarrow> traffic_simulator" where
  "TrafficSimulator rs tw m ph rate tape =
     \<lparr>env = \<lparr>now = 0, queue = [], eid = 0\<rparr>, roads = rs, time_window = tw, vehicles = [],
      selected_method = m, peak_hours = ph, vehicle_rate = rate, random_tape = tape, random_pos = 0,
      assigned_log = [], completed_log = []\<rparr>"

text \<open>
  \<^verbatim>\<open>add_vehicle\<close> (lines 101-103): the vehicle is appended and its process is created;
  \<^verbatim>\<open>env.process\<close> schedules the \<^verbatim>\<open>Initialize\<close> event at the current time, urgent.
\<close>

definition add_vehicle :: "vehicle \<Rightarrow> traffic_simulator \<Rightarrow> traffic_simulator" where
  "add_vehicle v s =
     s\<lparr>vehicles := vehicles s @ [v], env := schedule (InitializeVehicle v) URGENT 0 (env s)\<rparr>"

text \<open>
  The callback of \<^verbatim>\<open>InitializeVehicle\<close>: \<^verbatim>\<open>vehicle_process\<close> runs up to its \<^verbatim>\<open>yield\<close>. If it
  raises, the process event is scheduled as failed; otherwise \<^verbatim>\<open>env.timeout(1)\<close> is scheduled
  one time unit ahead.
\<close>

definition start_vehicle :: "vehicle \<Rightarrow> traffic_simulator \<Rightarrow> traffic_simulator" where
  "start_vehicle v s =
     (case vehicle_process_start (selected_method s) (roads s) v of
        (rs, Inl e) \<Rightarrow> s\<lparr>roads := rs, env := schedule (ProcessEnded (Some e)) NORMAL 0 (env s)\<rparr>
      | (rs, Inr i) \<Rightarrow>
          s\<lparr>roads := rs, assigned_log := assigned_log s @ [i],
            env := schedule (VehicleTimeout v i) NORMAL 1 (env s)\<rparr>)"

text \<open>
  The callback of \<^verbatim>\<open>VehicleTimeout\<close>: \<^verbatim>\<open>vehicle_process\<close> runs from its \<^verbatim>\<open>yield\<close> to its end,
  and the process event is scheduled, failed if line 116 raised.
\<close>

definition resume_vehicle :: "vehicle \<Rightarrow> nat \<Rightarrow> traffic_simulator \<Rightarrow> traffic_simulator" where
  "resume_vehicle v i s =
     (case vehicle_process_finish (roads s) v i of
        (rs, Some e) \<Rightarrow> s\<lparr>roads := rs, env := schedule (ProcessEnded (Some e)) NORMAL 0 (env s)\<rparr>
      | (rs, None) \<Rightarrow>
          s\<lparr>roads := rs, completed_log := completed_log s @ [i],
            env := schedule (ProcessEnded None) NORMAL 0 (env s)\<rparr>)"

section \<open>The arrival generator\<close>

text \<open>Line 120: \<^verbatim>\<open>is_peak = self.peak_hours[0] <= hour <= self.peak_hours[1]\<close>. The bounds may
  be halves (the midday window is \<^verbatim>\<open>(11.5, 13.5)\<close>), so they are rationals.\<close>

definition is_peak :: "rat \<times> rat \<Rightarrow> int \<Rightarrow> bool" where
  "is_peak ph hour \<longleftrightarrow> fst ph \<le> of_int hour \<and> of_int hour \<le> snd ph"

text \<open>Python's \<^verbatim>\<open>int(x)\<close> on a quotient: truncation towards zero.\<close>

definition py_int :: "rat \<Rightarrow> int" where
  "py_int q = (if 0 \<le> q then \<lfloor>q\<rfloor> else \<lceil>q\<rceil>)"

text \<open>Line 121: \<^verbatim>\<open>rate = self.vehicle_rate if is_peak else int(self.vehicle_rate / 2)\<close>.\<close>

definition hour_rate :: "traffic_simulator \<Rightarrow> int \<Rightarrow> int" where
  "hour_rate s hour =
     (if is_peak (peak_hours s) hour then vehicle_rate s
      else py_int (of_int (vehicle_rate s) / 2))"

text \<open>
  \<^verbatim>\<open>np.random.poisson(lam)\<close>: a \<^verbatim>\<open>ValueError\<close> for a negative rate, 0 for the rate 0, and
  otherwise some natural number, read from the tape. \<^verbatim>\<open>np.random.choice(xs)\<close>: some element
  of the (non-empty) list, selected by the next draw.
\<close>

definition random_poisson :: "int \<Rightarrow> traffic_simulator \<Rightarrow> error + (nat \<times> traffic_simulator)" where
  "random_poisson lam s =
     (if lam < 0 then Inl ValueError
      else if lam = 0 then Inr (0, s)
      else Inr (random_tape s (random_pos s), s\<lparr>random_pos := Suc (random_pos s)\<rparr>))"

definition random_choice :: "int list \<Rightarrow> traffic_simulator \<Rightarrow> int \<times> traffic_simulator" where
  "random_choice xs s =
     (xs ! (random_tape s (random_pos s) mod length xs), s\<lparr>random_pos := Suc (random_pos s)\<rparr>)"

text \<open>
  Lines 124-125, the constructor call: the id is the number of vehicles so far, the weight
  and then the priority are drawn; \<^verbatim>\<open>Vehicle.__init__\<close> makes one more draw, for the screen
  position.
\<close>

definition new_vehicle :: "traffic_simulator \<Rightarrow> vehicle \<times> traffic_simulator" where
  "new_vehicle s =
     (case random_choice [1, 2, 3] s of
        (w, s1) \<Rightarrow>
          (case random_choice [1, 2, 3, 4, 5] s1 of
             (p, s2) \<Rightarrow>
               (\<lparr>vid = int (length (vehicles s)), weight = w, priority = p\<rparr>,
                s2\<lparr>random_pos := Suc (random_pos s2)\<rparr>)))"

text \<open>Lines 123-126: \<^verbatim>\<open>for _ in range(num_vehicles)\<close>.\<close>

fun spawn_vehicles :: "nat \<Rightarrow> traffic_simulator \<Rightarrow> traffic_simulator" where
  "spawn_vehicles 0 s = s"
| "spawn_vehicles (Suc n) s = (case new_vehicle s of (v, s') \<Rightarrow> spawn_vehicles n (add_vehicle v s'))"

text \<open>
  \<^verbatim>\<open>generate_random_traffic\<close> entering the iteration of \<open>hour\<close> (lines 119-127): when the
  range is exhausted the generator returns; otherwise it draws the number of vehicles (a
  failing draw ends the process), creates them and waits on \<^verbatim>\<open>env.timeout(1)\<close>.
\<close>

definition generator_iteration :: "int \<Rightarrow> traffic_simulator \<Rightarrow> traffic_simulator" where
  "generator_iteration hour s =
     (if hour < time_window s then
        (case random_poisson (hour_rate s hour) s of
           Inl e \<Rightarrow> s\<lparr>env := schedule (ProcessEnded (Some e)) NORMAL 0 (env s)\<rparr>
         | Inr (n, s') \<Rightarrow>
             (let s'' = spawn_vehicles n s'
              in s''\<lparr>env := schedule (GeneratorTimeout hour) NORMAL 1 (env s'')\<rparr>))
      else s\<lparr>env := schedule (ProcessEnded None) NORMAL 0 (env s)\<rparr>)"

section \<open>Stepping and running the simulation\<close>

text \<open>
  \<^verbatim>\<open>Environment.step\<close>: an empty queue raises \<^verbatim>\<open>EmptySchedule\<close>; otherwise the least entry is
  popped, the clock is set and the callbacks run. A failed process event that nothing waits
  for is re-raised by \<^verbatim>\<open>step\<close> itself, which leaves the caller's loop.
\<close>

definition env_step :: "traffic_simulator \<Rightarrow> error + traffic_simulator" where
  "env_step s =
     (case heappop (queue (env s)) of
        None \<Rightarrow> Inl EmptySchedule
      | Some ((t, p, i, ev), q) \<Rightarrow>
          (let s1 = s\<lparr>env := (env s)\<lparr>now := t, queue := q\<rparr>\<rparr> in
           case ev of
             InitializeGenerator \<Rightarrow> Inr (generator_iteration 0 s1)
           | InitializeVehicle v \<Rightarrow> Inr (start_vehicle v s1)
           | GeneratorTimeout hour \<Rightarrow> Inr (generator_iteration (hour + 1) s1)
           | VehicleTimeout v j \<Rightarrow> Inr (resume_vehicle v j s1)
           | ProcessEnded None \<Rightarrow> Inr s1
           | ProcessEnded (Some e) \<Rightarrow> Inl e))"

text \<open>
  The test of the loop of \<^verbatim>\<open>run_simulation_with_visualization\<close> (line 257),
  \<^verbatim>\<open>env.peek() <= time_window\<close>, for a window that was never closed by the user.
\<close>

definition loop_test :: "traffic_simulator \<Rightarrow> bool" where
  "loop_test s = (case peek (env s) of None \<Rightarrow> False | Some t \<Rightarrow> t \<le> time_window s)"

text \<open>
  The state after at most \<open>k\<close> iterations of that loop (fewer when the test fails earlier),
  or the exception that left it. Closing the window leaves the loop after some iteration,
  so every state in which the loop can be left is one of these.
\<close>

fun loop_iterations :: "nat \<Rightarrow> traffic_simulator \<Rightarrow> error + traffic_simulator" where
  "loop_iterations 0 s = Inr s"
| "loop_iterations (Suc k) s =
     (if loop_test s then
        (case env_step s of Inl e \<Rightarrow> Inl e | Inr s' \<Rightarrow> loop_iterations k s')
      else Inr s)"

text \<open>
  The whole loop, with fuel: \<open>None\<close> when the fuel is used up before the test fails,
  otherwise the final state or the exception.
\<close>

fun run_loop :: "nat \<Rightarrow> traffic_simulator \<Rightarrow> (error + traffic_simulator) option" where
  "run_loop 0 s = None"
| "run_loop (Suc k) s =
     (if loop_test s then
        (case env_step s of Inl e \<Rightarrow> Some (Inl e) | Inr s' \<Rightarrow> run_loop k s')
      else Some (Inr s))"

text \<open>
  Lines 249-251: the environment and the simulator are created and the process of the
  arrival generator is started.
\<close>

definition simulation_start ::
  "road list \<Rightarrow> int \<Rightarrow> string \<Rightarrow> rat \<times> rat \<Rightarrow> int \<Rightarrow> (nat \<Rightarrow> nat) \<Rightarrow> traffic_simulator" where
  "simulation_start rs tw m ph rate tape =
     (let s = TrafficSimulator rs tw m ph rate tape
      in s\<lparr>env := schedule InitializeGenerator URGENT 0 (env s)\<rparr>)"

definition run_simulation_with_visualization ::
  "nat \<Rightarrow> road list \<Rightarrow> int \<Rightarrow> string \<Rightarrow> rat \<times> rat \<Rightarrow> int \<Rightarrow> (nat \<Rightarrow> nat)
     \<Rightarrow> (error + traffic_simulator) option" where
  "run_simulation_with_visualization fuel rs tw m ph rate tape =
     run_loop fuel (simulation_start rs tw m ph rate tape)"

text \<open>
  \<^verbatim>\<open>start_simulation\<close> (lines 284-289): the two roads are built from the first two
  capacities, whatever they are, and the run starts. \<open>start_simulation_roads\<close> is the list
  built at lines 285-288; a list with fewer than two capacities is an \<^verbatim>\<open>IndexError\<close>.
\<close>

definition start_simulation_roads :: "int list \<Rightarrow> error + road list" where
  "start_simulation_roads road_capacities =
     (case road_capacities of
        c0 # c1 # _ \<Rightarrow> Inr [Road ''Mandela'' c0, Road ''Portmore'' c1]
      | _ \<Rightarrow> Inl IndexError)"

definition start_simulation ::
  "nat \<Rightarrow> string \<Rightarrow> int \<Rightarrow> rat \<times> rat \<Rightarrow> int \<Rightarrow> int list \<Rightarrow> (nat \<Rightarrow> nat)
     \<Rightarrow> (error + traffic_simulator) option" where
  "start_simulation fuel m tw ph rate road_capacities tape =
     (case start_simulation_roads road_capacities of
        Inl e \<Rightarrow> Some (Inl e)
      | Inr rs \<Rightarrow> run_simulation_with_visualization fuel rs tw m ph rate tape)"

section \<open>Observations and fixed random tapes\<close>

text \<open>What a collaborator reads from a simulator: the loads, the histories and the pending events.\<close>

definition loads :: "traffic_simulator \<Rightarrow> int list" where
  "loads s = map current_load (roads s)"

definition histories :: "traffic_simulator \<Rightarrow> rat list list" where
  "histories s = map history (roads s)"

definition pending :: "traffic_simulator \<Rightarrow> event list" where
  "pending s = map (snd \<circ> snd \<circ> snd) (queue (env s))"

text \<open>A tape that starts with the listed draws and continues with zeros.\<close>

definition list_tape :: "nat list \<Rightarrow> nat \<Rightarrow> nat" where
  "list_tape xs k = (if k < length xs then xs ! k else 0)"

text \<open>
  One view of a simulator: the weights of the vehicles created so far, the loads, the
  histories, the two logs and the pending events.
\<close>

definition snapshot ::
  "traffic_simulator \<Rightarrow> int list \<times> int list \<times> rat list list \<times> nat list \<times> nat list \<times> event list" where
  "snapshot s =
     (map weight (vehicles s), loads s, histories s, assigned_log s, completed_log s, pending s)"




section \<open>The specification's notions\<close>




text \<open>Two batches of Entities that differ in the priorities only.\<close>

definition differ_in_priority_only :: "vehicle list \<Rightarrow> vehicle list \<Rightarrow> bool" where
  "differ_in_priority_only vs vs' \<longleftrightarrow>
     list_all2 (\<lambda>v v'. vid v = vid v' \<and> weight v = weight v') vs vs'"

section \<open>Counting vehicle processes\<close>








section \<open>The release step\<close>

lemma release_load: "current_load (release r w) = max 0 (current_load r - w)"
  by (simp add: release_def)

lemma finish_road:
  "i < length rs \<Longrightarrow>
   current_load (fst (vehicle_process_finish rs v i) ! i) = max 0 (current_load (rs ! i) - weight v)"
  by (simp add: vehicle_process_finish_def Let_def release_def split: sum.splits)

lemma finish_length: "length (fst (vehicle_process_finish rs v i)) = length rs"
  by (simp add: vehicle_process_finish_def Let_def split: sum.splits)

text \<open>
  Claim C6. When the hold of a vehicle ends, the load of its assigned road becomes
  \<open>max 0 (current_load - weight)\<close>: it drops by exactly the weight when the difference is not
  negative and is 0 otherwise, and a second release of the same vehicle leaves a load that
  is not negative.
\<close>

theorem release_floor_at_zero:
  assumes "i < length rs"
  shows "current_load (fst (vehicle_process_finish rs v i) ! i)
           = max 0 (current_load (rs ! i) - weight v)
       \<and> (0 \<le> current_load (rs ! i) - weight v \<longrightarrow>
            current_load (fst (vehicle_process_finish rs v i) ! i)
              = current_load (rs ! i) - weight v)
       \<and> (current_load (rs ! i) - weight v < 0 \<longrightarrow>
            current_load (fst (vehicle_process_finish rs v i) ! i) = 0)
       \<and> 0 \<le> current_load
               (fst (vehicle_process_finish (fst (vehicle_process_finish rs v i)) v i) ! i)"
proof -
  let ?rs' = "fst (vehicle_process_finish rs v i)"
  have one: "current_load (?rs' ! i) = max 0 (current_load (rs ! i) - weight v)"
    using assms by (rule finish_road)
  have "i < length ?rs'"
    using assms by (simp add: finish_length)
  then have "current_load (fst (vehicle_process_finish ?rs' v i) ! i)
               = max 0 (current_load (?rs' ! i) - weight v)"
    by (rule finish_road)
  then have two: "0 \<le> current_load (fst (vehicle_process_finish ?rs' v i) ! i)"
    by simp
  from one two show ?thesis by simp
qed

theorem release_floor_at_zero_witness:
  "current_load (fst (vehicle_process_finish
       [\<lparr>name = ''Mandela'', capacity = 10, current_load = 3, history = []\<rparr>]
       \<lparr>vid = 0, weight = 5, priority = 1\<rparr> 0) ! 0) = 0"
  using release_floor_at_zero
    [of 0 "[\<lparr>name = ''Mandela'', capacity = 10, current_load = 3, history = []\<rparr>]"
        "\<lparr>vid = 0, weight = 5, priority = 1\<rparr>"]
  by simp

section \<open>Policy A selects the first road of least ratio\<close>


lemma load_ratios_error: "load_ratios rs = Inl e \<Longrightarrow> e = ZeroDivisionError"
  by (induction rs) (auto simp: load_ratio_def split: sum.splits if_splits)










lemma optimize_loop_priority:
  "list_all2 (\<lambda>v v'. vid v = vid v' \<and> weight v = weight v') vs vs' \<Longrightarrow>
   optimize_loop rs asg vs = optimize_loop rs asg vs'"
proof (induction vs vs' arbitrary: rs asg rule: list_all2_induct)
  case Nil
  show ?case by simp
next
  case (Cons v vs v' vs')
  from Cons.hyps(1) have eq: "vid v = vid v'" "weight v = weight v'" by simp_all
  show ?case by (simp only: optimize_loop.simps eq Cons.IH)
qed

lemma balance_loop_priority:
  "list_all2 (\<lambda>v v'. vid v = vid v' \<and> weight v = weight v') vs vs' \<Longrightarrow>
   balance_loop order rs asg vs = balance_loop order rs asg vs'"
proof (induction vs vs' arbitrary: rs asg rule: list_all2_induct)
  case Nil
  show ?case by simp
next
  case (Cons v vs v' vs')
  from Cons.hyps(1) have eq: "vid v = vid v'" "weight v = weight v'" by simp_all
  show ?case by (simp only: balance_loop.simps eq Cons.IH)
qed

text \<open>
  Claim C9. Neither policy reads the priority: on the same roads, two batches that differ
  in the priorities only give the same assignments and the same loads (and the same
  exception, if any).
\<close>

theorem priority_not_consulted:
  assumes "differ_in_priority_only vs vs'"
  shows "optimize_traffic_flow rs vs = optimize_traffic_flow rs vs'
       \<and> balance_traffic_flow rs vs = balance_traffic_flow rs vs'"
proof -
  from assms have rel: "list_all2 (\<lambda>v v'. vid v = vid v' \<and> weight v = weight v') vs vs'"
    by (simp add: differ_in_priority_only_def)
  have "optimize_traffic_flow rs vs = optimize_traffic_flow rs vs'"
    unfolding optimize_traffic_flow_def using rel by (rule optimize_loop_priority)
  moreover have "balance_traffic_flow rs vs = balance_traffic_flow rs vs'"
    unfolding balance_traffic_flow_def
    by (simp add: balance_loop_priority [OF rel] split: sum.splits)
  ultimately show ?thesis by simp
qed

theorem priority_not_consulted_witness:
  "optimize_traffic_flow [\<lparr>name = ''Mandela'', capacity = 10, current_load = 0, history = []\<rparr>]
      [\<lparr>vid = 0, weight = 2, priority = 1\<rparr>]
   = optimize_traffic_flow [\<lparr>name = ''Mandela'', capacity = 10, current_load = 0, history = []\<rparr>]
      [\<lparr>vid = 0, weight = 2, priority = 5\<rparr>]
   \<and> balance_traffic_flow [\<lparr>name = ''Mandela'', capacity = 10, current_load = 0, history = []\<rparr>]
      [\<lparr>vid = 0, weight = 2, priority = 1\<rparr>]
   = balance_traffic_flow [\<lparr>name = ''Mandela'', capacity = 10, current_load = 0, history = []\<rparr>]
      [\<lparr>vid = 0, weight = 2, priority = 5\<rparr>]"
proof -
  have "differ_in_priority_only [\<lparr>vid = 0, weight = 2, priority = 1\<rparr>] [\<lparr>vid = 0, weight = 2, priority = 5\<rparr>]"
    by (simp add: differ_in_priority_only_def)
  then show ?thesis by (rule priority_not_consulted)
qed

lemma balance_loop_total: "\<exists>rs' asg'. balance_loop order rs asg vs = (rs', asg')"
  by (cases "balance_loop order rs asg vs") simp



section \<open>Runs on concrete inputs\<close>

text \<open>
  Claim C1, on the code. Two roads of capacity 10, Policy A, one vehicle of weight 5 added
  with \<^verbatim>\<open>add_vehicle\<close>, and the loop run to its end. The vehicle is assigned to the first
  road (position 0) and its process completes, but the weight is added twice before the
  hold (line 75 in the policy, line 113 in the process) and released once: the history of
  the first road is \<open>[1/2]\<close>, not \<open>[0]\<close>, and its load ends at 5, not 0.
\<close>

theorem single_vehicle_run_keeps_half_load:
  "map_option (map_sum id snapshot)
     (run_loop 4 (add_vehicle \<lparr>vid = 0, weight = 5, priority = 1\<rparr>
        (TrafficSimulator [Road ''A'' 10, Road ''B'' 10] 24 ''1'' (8, 10) 20 (list_tape []))))
   = Some (Inr ([5], [5, 0], [[1 / 2], []], [0], [0], []))"
  by code_simp

text \<open>
  Claim C2, on the code. Policy B, capacities 2 and 2, one hour, and a tape that makes the
  generator create one vehicle of weight 2. After two iterations of the loop (the generator,
  then the vehicle process up to its hold) the load of the first road is 4, above its
  capacity 2: \<^verbatim>\<open>balance_traffic_flow\<close> added the weight after its test, and line 113 added
  it again.
\<close>

theorem balanced_run_exceeds_capacity:
  "map_sum id snapshot
     (loop_iterations 2
        (simulation_start [Road ''Mandela'' 2, Road ''Portmore'' 2] 1 ''2'' (6, 8) 20
           (list_tape [1, 1])))
   = Inr ([2], [4, 0], [[], []], [0], [],
          [GeneratorTimeout 0, VehicleTimeout \<lparr>vid = 0, weight = 2, priority = 1\<rparr> 0])"
  by code_simp

text \<open>
  Claim C3, on the code. Policy B, capacities 2 and 2, 24 hours; the tape makes the
  generator create two vehicles in hour 0, of weights 3 and 1. The first fits nowhere:
  no load changes and nothing is logged for it, but line 111 raises \<^verbatim>\<open>KeyError\<close>. After
  three iterations the second vehicle holds the first road and the generator waits for
  hour 1; the fourth iteration pops the failed process event and the exception leaves the
  loop, so the run ends there.
\<close>

theorem dropped_vehicle_aborts_run:
  "map_sum id snapshot
     (loop_iterations 3
        (simulation_start [Road ''Mandela'' 2, Road ''Portmore'' 2] 24 ''2'' (6, 8) 20
           (list_tape [2, 2, 0, 0, 0])))
   = Inr ([3, 1], [2, 0], [[], []], [0], [],
          [GeneratorTimeout 0, ProcessEnded (Some KeyError),
           VehicleTimeout \<lparr>vid = 1, weight = 1, priority = 1\<rparr> 0])
   \<and> map_sum id snapshot
       (loop_iterations 4
          (simulation_start [Road ''Mandela'' 2, Road ''Portmore'' 2] 24 ''2'' (6, 8) 20
             (list_tape [2, 2, 0, 0, 0])))
     = Inl KeyError
   \<and> map_option (map_sum id snapshot)
       (start_simulation 5 ''2'' 24 (6, 8) 20 [2, 2] (list_tape [2, 2, 0, 0, 0]))
     = Some (Inl KeyError)"
  by code_simp

section \<open>No configuration is rejected\<close>






section \<open>The arrival generator, hour by hour\<close>










section \<open>The history of a road counts the completed vehicle processes\<close>

subsection \<open>heap\<close>







lemma peek_conv:
  "peek e = (case heappop (queue e) of None \<Rightarrow> None | Some (m, q') \<Rightarrow> Some (fst m))"
  by (simp add: peek_def heappop_def Let_def split: list.splits)



subsection \<open>roads\<close>















subsection \<open>vehicle process\<close>






subsection \<open>frames\<close>











subsection \<open>the invariant\<close>





subsection \<open>one step of the environment\<close>




subsection \<open>steps that cannot fail\<close>





subsection \<open>iterations\<close>




subsection \<open>start and end\<close>





subsection \<open>the claim\<close>




end
